theory Spec2Isabelle
  imports Complex_Main "HOL-Library.Signed_Division" "HOL-Library.Word"
begin

section \<open>The NukaCola LED cluster (LedCluster.h)\<close>

text \<open>
  A shallow embedding of the \<^verbatim>\<open>LedCluster\<close> class of the NukaCola sketch for the
  Arduino Nano. Conventions of the embedding:

  \<^item> A C++ \<^verbatim>\<open>int\<close> (16 bits on the AVR) is a HOL \<open>int\<close> that holds a value of the 16
    bit range. The sums and products the settings mutators compute from their argument
    and from the stored settings can leave that range: there the wrap-around modulo
    \<open>2 ^ 16\<close> of the AVR's arithmetic is written out (\<open>int16\<close>). Every other integer
    expression of the class stays far inside the range for the values the theorems
    below quantify over.
  \<^item> \<^verbatim>\<open>millis()\<close> and \<^verbatim>\<open>startTimeMs\<close> are 32 bit words; the elapsed time is their
    difference read as a signed \<^verbatim>\<open>long\<close>, as the code computes it.
  \<^item> A \<^verbatim>\<open>float\<close> is a HOL \<open>real\<close>: binary rounding is idealised. At the concrete
    inputs evaluated below, the rounding of the 32 bit floats changes no integer
    computed and no comparison made.
  \<^item> \<^verbatim>\<open>/\<close> and \<^verbatim>\<open>%\<close> on C++ integers truncate towards zero: \<open>sdiv\<close> and \<open>smod\<close>.
  \<^item> The text written to \<^verbatim>\<open>Serial\<close> and the \<^verbatim>\<open>delay(20)\<close> of \<^verbatim>\<open>poll\<close> have no effect
    on the state modelled here and are left out.
\<close>

subsection \<open>Arduino core arithmetic\<close>

text \<open>
  The conversion of a \<^verbatim>\<open>float\<close> to \<^verbatim>\<open>int\<close> or \<^verbatim>\<open>long\<close>, written \<^verbatim>\<open>(int)x\<close>, \<^verbatim>\<open>(long)x\<close> or
  implied by an assignment or a parameter: the fractional part is discarded.
\<close>

definition c_int :: "real \<Rightarrow> int" where
  "c_int x = (if 0 \<le> x then \<lfloor>x\<rfloor> else - \<lfloor>- x\<rfloor>)"

text \<open>
  The macro of \<^verbatim>\<open>Arduino.h\<close>:
  \<^verbatim>\<open>#define round(x) ((x)>=0?(long)((x)+0.5):(long)((x)-0.5))\<close>.
  The macros \<^verbatim>\<open>min(a,b) ((a)<(b)?(a):(b))\<close>, \<^verbatim>\<open>max(a,b) ((a)>(b)?(a):(b))\<close> and
  \<^verbatim>\<open>abs(x) ((x)>0?(x):-(x))\<close> of the same header compute the values of HOL's
  \<open>min\<close>, \<open>max\<close> and \<open>abs\<close>, which stand for them below.
\<close>

definition round_c :: "real \<Rightarrow> int" where
  "round_c x = (if 0 \<le> x then c_int (x + 1 / 2) else c_int (x - 1 / 2))"

text \<open>
  The value an \<^verbatim>\<open>int\<close> expression of the AVR leaves when its mathematical result is
  \<open>k\<close>: the 16 bit two's complement value congruent to \<open>k\<close> modulo \<open>2 ^ 16\<close>.
\<close>

definition int16 :: "int \<Rightarrow> int" where
  "int16 k = (k + 32768) mod 65536 - 32768"

subsection \<open>Constants\<close>

definition VERSION :: int where
  "VERSION = 1"

definition BRIGHTNESS_TO_DUTY_CYCLE :: "nat list" where
  "BRIGHTNESS_TO_DUTY_CYCLE =
   [  0,   1,   2,   3,   4,   5,   6,   7,   8,   9,
     10,  12,  13,  14,  15,  16,  17,  18,  20,  21,
     22,  23,  24,  26,  27,  28,  30,  31,  32,  33,
     35,  36,  38,  39,  40,  42,  43,  45,  46,  48,
     49,  51,  53,  54,  56,  57,  59,  61,  63,  64,
     66,  68,  70,  72,  74,  76,  78,  80,  82,  84,
     86,  88,  90,  93,  95,  97, 100, 102, 105, 107,
    110, 113, 116, 118, 121, 124, 128, 131, 134, 137,
    141, 145, 148, 152, 156, 160, 165, 169, 174, 179,
    184, 189, 195, 201, 207, 214, 221, 229, 237, 245, 255]"

datatype Patterns =
    JustOn
  | ChaseClockwise
  | ChaseAntiClockwise
  | ChaseBoth
  | WaveClockwise
  | WaveAntiClockwise
  | Throb
  | Throb2
  | Heartbeat
  | Raindrop
  | Flames
  | Static

text \<open>The enumerators' values, and the pattern a stored value selects in a \<^verbatim>\<open>switch\<close>.\<close>

fun pattern_value :: "Patterns \<Rightarrow> int" where
  "pattern_value JustOn = 0"
| "pattern_value ChaseClockwise = 1"
| "pattern_value ChaseAntiClockwise = 2"
| "pattern_value ChaseBoth = 3"
| "pattern_value WaveClockwise = 4"
| "pattern_value WaveAntiClockwise = 5"
| "pattern_value Throb = 6"
| "pattern_value Throb2 = 7"
| "pattern_value Heartbeat = 8"
| "pattern_value Raindrop = 9"
| "pattern_value Flames = 10"
| "pattern_value Static = 11"

definition PATTERN_COUNT :: int where
  "PATTERN_COUNT = 12"

definition pattern_of :: "int \<Rightarrow> Patterns option" where
  "pattern_of v =
    (if v = 0 then Some JustOn
     else if v = 1 then Some ChaseClockwise
     else if v = 2 then Some ChaseAntiClockwise
     else if v = 3 then Some ChaseBoth
     else if v = 4 then Some WaveClockwise
     else if v = 5 then Some WaveAntiClockwise
     else if v = 6 then Some Throb
     else if v = 7 then Some Throb2
     else if v = 8 then Some Heartbeat
     else if v = 9 then Some Raindrop
     else if v = 10 then Some Flames
     else if v = 11 then Some Static
     else None)"

definition MIN_BRIGHTNESS :: int where
  "MIN_BRIGHTNESS = 1"

definition MAX_BRIGHTNESS :: int where
  "MAX_BRIGHTNESS = 20"

definition DEFAULT_BRIGHTNESS :: int where
  "DEFAULT_BRIGHTNESS = 18"

definition MIN_SPEED :: int where
  "MIN_SPEED = 6"

definition MAX_SPEED :: int where
  "MAX_SPEED = 60"

definition SPEED_STEP :: int where
  "SPEED_STEP = 3"

definition DEFAULT_SPEED :: int where
  "DEFAULT_SPEED = 18"

definition RAINDROP_ANGLE :: int where
  "RAINDROP_ANGLE = 12"

definition RAMPUP_ANGLE :: int where
  "RAMPUP_ANGLE = 3"

definition RAMPDOWN_ANGLE :: int where
  "RAMPDOWN_ANGLE = RAINDROP_ANGLE - RAMPUP_ANGLE"

subsection \<open>Data\<close>

text \<open>
  The field \<open>pattern\<close> holds the enumerator's value: the store may hold any value, and
  \<^verbatim>\<open>setPattern\<close> assigns an \<^verbatim>\<open>int\<close> to it.
\<close>

record Settings =
  version :: int
  pattern :: int
  brightnessMultiplier :: int
  revsPerMinute :: int
  invalid :: nat

record LightLocationInfo =
  angle :: real
  revolution :: int

record LedInfo =
  index :: int
  angle :: real
  brightness :: int
  pin :: int
  extra :: int

text \<open>
  The members of the class, followed by the parts of the board it acts on:
  \<^item> \<open>settingsNV\<close> is the \<^verbatim>\<open>Settings\<close> value held in the EEPROM at the address of the
    \<^verbatim>\<open>NonVol<Settings>\<close> member, and \<open>eepromPuts\<close> lists the values handed to \<^verbatim>\<open>EEPROM.put\<close>;
  \<^item> \<open>lastRevolution\<close> is the \<^verbatim>\<open>static\<close> local variable of \<^verbatim>\<open>poll\<close>;
  \<^item> \<open>analogWrites\<close> lists the calls \<^verbatim>\<open>analogWrite(pin, value)\<close> in the order made;
  \<^item> \<open>randomSource\<close> is the sequence of values the \<^verbatim>\<open>random()\<close> of the C library
    returns, and \<open>randomCalls\<close> counts the values consumed.
  The member \<^verbatim>\<open>count\<close> is the length of \<open>leds\<close>.
\<close>

record LedCluster =
  leds :: "LedInfo list"
  startTimeMs :: "32 word"
  revTimePeriodMs :: int
  settingsNV :: Settings
  settings :: Settings
  running :: bool
  lastRevolution :: int
  eepromPuts :: "Settings list"
  analogWrites :: "(int \<times> nat) list"
  randomSource :: "nat \<Rightarrow> int"
  randomCalls :: nat

subsection \<open>The board: EEPROM, PWM outputs, random numbers\<close>

text \<open>\<^verbatim>\<open>settings = settingsNV\<close>: \<^verbatim>\<open>NonVol::operator T()\<close> reads the value with \<^verbatim>\<open>EEPROM.get\<close>.\<close>

definition loadSettings :: "LedCluster \<Rightarrow> LedCluster" where
  "loadSettings c = c\<lparr>settings := settingsNV c\<rparr>"

text \<open>\<^verbatim>\<open>settingsNV = settings\<close>: \<^verbatim>\<open>NonVol::operator=\<close> writes the value with \<^verbatim>\<open>EEPROM.put\<close>.\<close>

definition saveSettings :: "LedCluster \<Rightarrow> LedCluster" where
  "saveSettings c = c\<lparr>settingsNV := settings c, eepromPuts := eepromPuts c @ [settings c]\<rparr>"

definition analogWrite :: "int \<Rightarrow> nat \<Rightarrow> LedCluster \<Rightarrow> LedCluster" where
  "analogWrite p v c = c\<lparr>analogWrites := analogWrites c @ [(p, v)]\<rparr>"

text \<open>
  \<^verbatim>\<open>random(howbig)\<close> and \<^verbatim>\<open>random(howsmall, howbig)\<close> of the Arduino core (WMath.cpp):
  \<^verbatim>\<open>if (howbig == 0) return 0; return random() % howbig;\<close> and
  \<^verbatim>\<open>if (howsmall >= howbig) return howsmall; return random(howbig - howsmall) + howsmall;\<close>
\<close>

definition random1 :: "int \<Rightarrow> LedCluster \<Rightarrow> int \<times> LedCluster" where
  "random1 howbig c =
    (if howbig = 0 then (0, c)
     else (randomSource c (randomCalls c) smod howbig, c\<lparr>randomCalls := randomCalls c + 1\<rparr>))"

definition random2 :: "int \<Rightarrow> int \<Rightarrow> LedCluster \<Rightarrow> int \<times> LedCluster" where
  "random2 howsmall howbig c =
    (if howsmall \<ge> howbig then (howsmall, c)
     else (let (r, c') = random1 (howbig - howsmall) c in (r + howsmall, c')))"

subsection \<open>Range and duty cycle\<close>

definition forceRange :: "int \<Rightarrow> int \<Rightarrow> int \<Rightarrow> int" where
  "forceRange v min_val max_val = min (max v min_val) max_val"

definition brightnessToDutyCycle :: "int \<Rightarrow> nat" where
  "brightnessToDutyCycle b = BRIGHTNESS_TO_DUTY_CYCLE ! nat (forceRange b 0 100)"

subsection \<open>Global scaling\<close>

definition globaliseBrightness :: "int \<Rightarrow> LedCluster \<Rightarrow> int \<times> LedCluster" where
  "globaliseBrightness b c =
    (let c' = loadSettings c in
     (if brightnessMultiplier (settings c') \<noteq> MAX_BRIGHTNESS
      then round_c (real_of_int (brightnessMultiplier (settings c') * b) / real_of_int MAX_BRIGHTNESS)
      else b,
      c'))"

text \<open>The statement \<^verbatim>\<open>led->brightness = globaliseBrightness(v);\<close> that ends most patterns.\<close>

definition assignGlobalised :: "int \<Rightarrow> LedInfo \<Rightarrow> LedCluster \<Rightarrow> LedInfo \<times> LedCluster" where
  "assignGlobalised v led c = (let (b, c') = globaliseBrightness v c in (led\<lparr>brightness := b\<rparr>, c'))"

subsection \<open>The patterns\<close>

text \<open>
  Each pattern method is the raw brightness it computes (the argument it hands to
  \<^verbatim>\<open>globaliseBrightness\<close>), named \<open>...Raw\<close>, followed by the assignment to the LED.
\<close>

type_synonym PatternMethod = "LedInfo \<Rightarrow> LightLocationInfo \<Rightarrow> LedCluster \<Rightarrow> LedInfo \<times> LedCluster"

definition justOn :: PatternMethod where
  "justOn led info c = assignGlobalised 100 led c"

definition chaseModeAcwRaw :: "LedInfo \<Rightarrow> LightLocationInfo \<Rightarrow> int" where
  "chaseModeAcwRaw led info =
    (let a = c_int ((LightLocationInfo.angle info + 360) + angle led) smod 360
     in round_c ((100 * real_of_int (360 - a)) / 360))"

definition chaseModeAcw :: PatternMethod where
  "chaseModeAcw led info c = assignGlobalised (chaseModeAcwRaw led info) led c"

definition chaseModeCwRaw :: "LedInfo \<Rightarrow> LightLocationInfo \<Rightarrow> int" where
  "chaseModeCwRaw led info =
    (let a = c_int ((LightLocationInfo.angle info + 360) - angle led) smod 360
     in round_c ((100 * real_of_int (360 - a)) / 360))"

definition chaseModeCw :: PatternMethod where
  "chaseModeCw led info c = assignGlobalised (chaseModeCwRaw led info) led c"

definition chaseModeBothRaw :: "LedInfo \<Rightarrow> LightLocationInfo \<Rightarrow> int" where
  "chaseModeBothRaw led info =
    (let a = min (c_int ((LightLocationInfo.angle info + 360) - angle led) smod 360)
                 (c_int ((LightLocationInfo.angle info + 360) + angle led) smod 360)
     in round_c ((100 * real_of_int (360 - a)) / 360))"

definition chaseModeBoth :: PatternMethod where
  "chaseModeBoth led info c = assignGlobalised (chaseModeBothRaw led info) led c"

definition raindropPosition :: "LedInfo \<Rightarrow> LightLocationInfo \<Rightarrow> int" where
  "raindropPosition led info = c_int (LightLocationInfo.angle info - real_of_int (extra led))"

definition raindropRampUp :: "int \<Rightarrow> int" where
  "raindropRampUp position = round_c ((100 * real_of_int position) / real_of_int RAMPUP_ANGLE)"

definition raindropRampDown :: "int \<Rightarrow> int" where
  "raindropRampDown position =
    100 - round_c ((100 * real_of_int (position - RAMPUP_ANGLE)) / real_of_int RAMPDOWN_ANGLE)"

definition raindropMode :: PatternMethod where
  "raindropMode led info c =
    (let position = raindropPosition led info in
     if position \<ge> 0 \<and> position < RAMPUP_ANGLE
     then assignGlobalised (raindropRampUp position) led c
     else if position \<ge> RAMPUP_ANGLE \<and> position < RAINDROP_ANGLE
     then assignGlobalised (raindropRampDown position) led c
     else (led\<lparr>brightness := 0\<rparr>, c))"

text \<open>The brightness of the raindrop before scaling; its last branch is not scaled at all.\<close>

definition raindropModeRaw :: "LedInfo \<Rightarrow> LightLocationInfo \<Rightarrow> int" where
  "raindropModeRaw led info =
    (let position = raindropPosition led info in
     if position \<ge> 0 \<and> position < RAMPUP_ANGLE then raindropRampUp position
     else if position \<ge> RAMPUP_ANGLE \<and> position < RAINDROP_ANGLE then raindropRampDown position
     else 0)"

definition candleMode :: PatternMethod where
  "candleMode led info c =
    (let (r, c1) = random2 (- 4) 4 c;
         led1 = led\<lparr>extra := forceRange (extra led + r) 0 100\<rparr>
     in assignGlobalised (extra led1) led1 c1)"

definition candleModeRaw :: "LedInfo \<Rightarrow> LightLocationInfo \<Rightarrow> LedCluster \<Rightarrow> int" where
  "candleModeRaw led info c = forceRange (extra led + fst (random2 (- 4) 4 c)) 0 100"

definition staticMode :: PatternMethod where
  "staticMode led info c =
    (let (led1, c1) = candleMode led info c;
         (noise, c2) = random2 (- 10) 40 c1
     in assignGlobalised (forceRange (extra led1 + noise) 0 100) led1 c2)"

definition staticModeRaw :: "LedInfo \<Rightarrow> LightLocationInfo \<Rightarrow> LedCluster \<Rightarrow> int" where
  "staticModeRaw led info c =
    (let (led1, c1) = candleMode led info c;
         (noise, c2) = random2 (- 10) 40 c1
     in forceRange (extra led1 + noise) 0 100)"

definition waveModeCwRaw :: "LedInfo \<Rightarrow> LightLocationInfo \<Rightarrow> int" where
  "waveModeCwRaw led info =
    (let a0 = c_int (LightLocationInfo.angle info - angle led);
         a = \<bar>((a0 + 180) smod 360) - 180\<bar>
     in round_c ((100 * real_of_int (180 - a)) / 180))"

definition waveModeCw :: PatternMethod where
  "waveModeCw led info c = assignGlobalised (waveModeCwRaw led info) led c"

definition waveModeAcwRaw :: "LedInfo \<Rightarrow> LightLocationInfo \<Rightarrow> int" where
  "waveModeAcwRaw led info =
    (let a0 = c_int (LightLocationInfo.angle info - angle led);
         a = \<bar>(((360 - a0) + 180) smod 360) - 180\<bar>
     in round_c ((100 * real_of_int (180 - a)) / 180))"

definition waveModeAcw :: PatternMethod where
  "waveModeAcw led info c = assignGlobalised (waveModeAcwRaw led info) led c"

definition RADS_PER_DEGREE :: real where
  "RADS_PER_DEGREE = 174533 / 10000000"

definition throbValue :: "LightLocationInfo \<Rightarrow> int" where
  "throbValue info = 2 * round_c \<bar>180 - LightLocationInfo.angle info\<bar>"

definition throbModeRaw :: "LedInfo \<Rightarrow> LightLocationInfo \<Rightarrow> int" where
  "throbModeRaw led info = c_int ((1 + cos (real_of_int (throbValue info) * RADS_PER_DEGREE)) * 50)"

definition throbMode :: PatternMethod where
  "throbMode led info c = assignGlobalised (throbModeRaw led info) led c"

definition throbMode2Raw :: "LedInfo \<Rightarrow> LightLocationInfo \<Rightarrow> int" where
  "throbMode2Raw led info = c_int ((1 + sin (real_of_int (throbValue info) * RADS_PER_DEGREE)) * 50)"

definition throbMode2 :: PatternMethod where
  "throbMode2 led info c = assignGlobalised (throbMode2Raw led info) led c"

definition heartbeatModeRaw :: "LedInfo \<Rightarrow> LightLocationInfo \<Rightarrow> int" where
  "heartbeatModeRaw led info =
    (let delta = round_c (min \<bar>225 - LightLocationInfo.angle info\<bar> \<bar>135 - LightLocationInfo.angle info\<bar>);
         percent = round_c (real_of_int (100 * delta) / 135);
         v = round_c ((real_of_int (100 - percent) * 2) - 100)
     in v)"

definition heartbeatMode :: PatternMethod where
  "heartbeatMode led info c = assignGlobalised (heartbeatModeRaw led info) led c"

text \<open>The raw brightness of each pattern, and the method \<^verbatim>\<open>poll\<close> selects for it.\<close>

fun rawBrightness :: "Patterns \<Rightarrow> LedInfo \<Rightarrow> LightLocationInfo \<Rightarrow> LedCluster \<Rightarrow> int" where
  "rawBrightness JustOn led info c = 100"
| "rawBrightness ChaseClockwise led info c = chaseModeCwRaw led info"
| "rawBrightness ChaseAntiClockwise led info c = chaseModeAcwRaw led info"
| "rawBrightness ChaseBoth led info c = chaseModeBothRaw led info"
| "rawBrightness WaveClockwise led info c = waveModeCwRaw led info"
| "rawBrightness WaveAntiClockwise led info c = waveModeAcwRaw led info"
| "rawBrightness Throb led info c = throbModeRaw led info"
| "rawBrightness Throb2 led info c = throbMode2Raw led info"
| "rawBrightness Heartbeat led info c = heartbeatModeRaw led info"
| "rawBrightness Raindrop led info c = raindropModeRaw led info"
| "rawBrightness Flames led info c = candleModeRaw led info c"
| "rawBrightness Static led info c = staticModeRaw led info c"

fun patternMethod :: "Patterns \<Rightarrow> PatternMethod" where
  "patternMethod ChaseClockwise = chaseModeCw"
| "patternMethod ChaseAntiClockwise = chaseModeAcw"
| "patternMethod ChaseBoth = chaseModeBoth"
| "patternMethod WaveClockwise = waveModeCw"
| "patternMethod WaveAntiClockwise = waveModeAcw"
| "patternMethod Throb = throbMode"
| "patternMethod Throb2 = throbMode2"
| "patternMethod Heartbeat = heartbeatMode"
| "patternMethod Raindrop = raindropMode"
| "patternMethod Flames = candleMode"
| "patternMethod Static = staticMode"
| "patternMethod JustOn = justOn"

subsection \<open>The cycle clock\<close>

text \<open>
  \<^verbatim>\<open>long elapsedMs = (millis() - startTimeMs);\<close> subtracts modulo \<open>2 ^ 32\<close> and reads the
  difference as a signed 32 bit value. A division by a period of zero is undefined in
  C++: the model has no result there.
\<close>

definition getCurrentLightInfo :: "32 word \<Rightarrow> LedCluster \<Rightarrow> LightLocationInfo option" where
  "getCurrentLightInfo now c =
    (let elapsedMs = sint (now - startTimeMs c) in
     if revTimePeriodMs c = 0 then None
     else Some \<lparr>LightLocationInfo.angle =
                   (360 * real_of_int (elapsedMs smod revTimePeriodMs c)) / real_of_int (revTimePeriodMs c),
                revolution = elapsedMs sdiv revTimePeriodMs c\<rparr>)"

subsection \<open>Rendering\<close>

definition populateRaindrops :: "LedCluster \<Rightarrow> LedCluster" where
  "populateRaindrops c =
    fold (\<lambda>i c1. let (r, c2) = random1 (360 - RAINDROP_ANGLE) c1
                 in c2\<lparr>leds := (leds c2)[i := (leds c2 ! i)\<lparr>extra := r\<rparr>]\<rparr>)
         [0..<length (leds c)] c"

definition updateLedBrightnesses :: "LedCluster \<Rightarrow> LedCluster" where
  "updateLedBrightnesses c =
    fold (\<lambda>led. analogWrite (pin led) (brightnessToDutyCycle (brightness led))) (leds c) c"

text \<open>The loop \<^verbatim>\<open>for (i = 0; i < count; ++i) (this->*method)(&leds[i], &info);\<close>\<close>

definition applyMethod :: "PatternMethod \<Rightarrow> LightLocationInfo \<Rightarrow> nat \<Rightarrow> LedCluster \<Rightarrow> LedCluster" where
  "applyMethod method info i c =
    (let (led', c') = method (leds c ! i) info c in c'\<lparr>leds := (leds c')[i := led']\<rparr>)"

definition runMethod :: "PatternMethod \<Rightarrow> LightLocationInfo \<Rightarrow> LedCluster \<Rightarrow> LedCluster" where
  "runMethod method info c = fold (applyMethod method info) [0..<length (leds c)] c"

text \<open>
  The \<^verbatim>\<open>switch\<close> of \<^verbatim>\<open>poll\<close>: the method chosen, after the raindrops were drawn afresh
  when the pattern is Raindrop and the revolution has changed. A value that is no
  pattern chooses no method.
\<close>

definition selectMethod :: "LightLocationInfo \<Rightarrow> LedCluster \<Rightarrow> PatternMethod option \<times> LedCluster" where
  "selectMethod info c =
    (case pattern_of (pattern (settings c)) of
       None \<Rightarrow> (None, c)
     | Some Raindrop \<Rightarrow>
         (Some raindropMode,
          if lastRevolution c \<noteq> revolution info then populateRaindrops c else c)
     | Some p \<Rightarrow> (Some (patternMethod p), c))"

definition poll :: "32 word \<Rightarrow> LedCluster \<Rightarrow> LedCluster option" where
  "poll now c =
    (if running c then
       (case getCurrentLightInfo now c of
          None \<Rightarrow> None
        | Some info \<Rightarrow>
            (let (method, c1) = selectMethod info c;
                 c2 = (case method of
                         Some m \<Rightarrow> updateLedBrightnesses (runMethod m info c1)
                       | None \<Rightarrow> c1)
             in Some (c2\<lparr>lastRevolution := revolution info\<rparr>)))
     else Some c)"

subsection \<open>The settings mutators\<close>

definition setBrightness :: "int \<Rightarrow> LedCluster \<Rightarrow> bool \<times> LedCluster" where
  "setBrightness v c =
    (let c1 = loadSettings c;
         newValue = forceRange v MIN_BRIGHTNESS MAX_BRIGHTNESS;
         change = (newValue \<noteq> brightnessMultiplier (settings c1))
     in (change,
         if change
         then saveSettings (c1\<lparr>settings := (settings c1)\<lparr>brightnessMultiplier := newValue\<rparr>\<rparr>)
         else c1))"

definition setBrightnessPercent :: "int \<Rightarrow> LedCluster \<Rightarrow> bool \<times> LedCluster" where
  "setBrightnessPercent percent c = setBrightness (int16 (percent * MAX_BRIGHTNESS) sdiv 100) c"

definition updateBrightness :: "int \<Rightarrow> LedCluster \<Rightarrow> bool \<times> LedCluster" where
  "updateBrightness delta c =
    (let c1 = loadSettings c
     in setBrightness (int16 (brightnessMultiplier (settings c1) + delta)) c1)"

definition setPattern :: "int \<Rightarrow> LedCluster \<Rightarrow> bool \<times> LedCluster" where
  "setPattern p c =
    (let c1 = loadSettings c;
         newValue = forceRange p 0 PATTERN_COUNT;
         change = (pattern (settings c1) \<noteq> newValue)
     in (change,
         if change
         then saveSettings (c1\<lparr>settings := (settings c1)\<lparr>pattern := newValue\<rparr>\<rparr>)
         else c1))"

definition updatePattern :: "int \<Rightarrow> LedCluster \<Rightarrow> bool \<times> LedCluster" where
  "updatePattern delta c =
    (let c1 = loadSettings c
     in setPattern
          (int16 (int16 (pattern (settings c1) + PATTERN_COUNT) + delta) smod PATTERN_COUNT) c1)"

definition setSpeed :: "int \<Rightarrow> LedCluster \<Rightarrow> bool \<times> LedCluster" where
  "setSpeed speed c =
    (let c1 = loadSettings c;
         newValue = forceRange speed MIN_SPEED MAX_SPEED;
         change = (newValue \<noteq> revsPerMinute (settings c1))
     in (change,
         if change
         then (let c2 = saveSettings (c1\<lparr>settings := (settings c1)\<lparr>revsPerMinute := newValue\<rparr>\<rparr>)
               in c2\<lparr>revTimePeriodMs :=
                      c_int ((1000 * 60) / real_of_int (revsPerMinute (settings c2)))\<rparr>)
         else c1))"

definition updateSpeed :: "int \<Rightarrow> LedCluster \<Rightarrow> bool \<times> LedCluster" where
  "updateSpeed delta c =
    (let c1 = loadSettings c
     in setSpeed (int16 (revsPerMinute (settings c1) + int16 (delta * SPEED_STEP))) c1)"

definition setSpeedPercent :: "int \<Rightarrow> LedCluster \<Rightarrow> bool \<times> LedCluster" where
  "setSpeedPercent percent c = setSpeed (int16 (MAX_SPEED * percent) sdiv 100) c"

subsection \<open>Starting and stopping\<close>

text \<open>
  \<^verbatim>\<open>startUp\<close> reads \<^verbatim>\<open>millis()\<close> for the start time, and \<^verbatim>\<open>poll\<close> reads it again: \<open>now\<close>
  and \<open>now'\<close>.
\<close>

definition startUp :: "32 word \<Rightarrow> 32 word \<Rightarrow> LedCluster \<Rightarrow> LedCluster option" where
  "startUp now now' c =
    (if \<not> running c then poll now' (c\<lparr>startTimeMs := now, running := True\<rparr>) else Some c)"

definition shutdown :: "LedCluster \<Rightarrow> LedCluster" where
  "shutdown c = fold (\<lambda>led. analogWrite (pin led) 0) (leds c) (c\<lparr>running := False\<rparr>)"

subsection \<open>Construction\<close>

text \<open>
  The constructor, given the pins (\<^verbatim>\<open>count\<close> is their number), the value of \<^verbatim>\<open>millis()\<close>,
  the contents of the EEPROM and the random source. The members \<^verbatim>\<open>extra\<close>, \<^verbatim>\<open>settings\<close>
  and \<^verbatim>\<open>revTimePeriodMs\<close> are assigned before they are read; until then they hold 0 and
  the stored settings here.
\<close>

definition LedCluster_new :: "int list \<Rightarrow> 32 word \<Rightarrow> Settings \<Rightarrow> (nat \<Rightarrow> int) \<Rightarrow> LedCluster" where
  "LedCluster_new pins now eeprom rnd =
    (let a = 360 / real (length pins);
         c0 = \<lparr>leds = map (\<lambda>i. \<lparr>index = int i, angle = a * real i, brightness = 0,
                                pin = pins ! i, extra = 0\<rparr>) [0..<length pins],
               startTimeMs = now, revTimePeriodMs = 0,
               settingsNV = eeprom, settings = eeprom,
               running = True, lastRevolution = 0,
               eepromPuts = [], analogWrites = [],
               randomSource = rnd, randomCalls = 0\<rparr>;
         c1 = populateRaindrops c0;
         c2 = loadSettings c1;
         c3 = (if invalid (settings c2) \<noteq> 0 \<or> version (settings c2) \<noteq> VERSION
               then saveSettings
                      (c2\<lparr>settings := (settings c2)\<lparr>
                            version := VERSION,
                            pattern := pattern_value ChaseClockwise,
                            brightnessMultiplier := DEFAULT_BRIGHTNESS,
                            revsPerMinute := DEFAULT_SPEED,
                            invalid := 0\<rparr>\<rparr>)
               else c2)
     in c3\<lparr>revTimePeriodMs := c_int ((1000 * 60) / real_of_int (revsPerMinute (settings c3)))\<rparr>)"

subsection \<open>The sketch's use of the cluster\<close>

text \<open>
  The public methods that change the settings, with their \<^verbatim>\<open>int\<close> argument, and the calls the
  sketch makes on its cluster from \<^verbatim>\<open>loop()\<close> and from its button and serial handlers.
\<close>

datatype Mutator =
    SetBrightnessPercent int
  | SetBrightness int
  | UpdateBrightness int
  | SetPattern int
  | UpdatePattern int
  | UpdateSpeed int
  | SetSpeedPercent int
  | SetSpeed int

fun mutate :: "Mutator \<Rightarrow> LedCluster \<Rightarrow> bool \<times> LedCluster" where
  "mutate (SetBrightnessPercent percent) c = setBrightnessPercent percent c"
| "mutate (SetBrightness v) c = setBrightness v c"
| "mutate (UpdateBrightness delta) c = updateBrightness delta c"
| "mutate (SetPattern p) c = setPattern p c"
| "mutate (UpdatePattern delta) c = updatePattern delta c"
| "mutate (UpdateSpeed delta) c = updateSpeed delta c"
| "mutate (SetSpeedPercent percent) c = setSpeedPercent percent c"
| "mutate (SetSpeed speed) c = setSpeed speed c"

datatype Call =
    Poll "32 word"
  | Mutate Mutator
  | Shutdown
  | StartUp "32 word" "32 word"

fun call :: "Call \<Rightarrow> LedCluster \<Rightarrow> LedCluster option" where
  "call (Poll now) c = poll now c"
| "call (Mutate m) c = Some (snd (mutate m c))"
| "call Shutdown c = Some (shutdown c)"
| "call (StartUp now now') c = startUp now now' c"

fun calls :: "Call list \<Rightarrow> LedCluster \<Rightarrow> LedCluster option" where
  "calls [] c = Some c"
| "calls (x # xs) c = (case call x c of None \<Rightarrow> None | Some c' \<Rightarrow> calls xs c')"

fun isStartUp :: "Call \<Rightarrow> bool" where
  "isStartUp (StartUp now now') = True"
| "isStartUp x = False"

fun isShutdown :: "Call \<Rightarrow> bool" where
  "isShutdown Shutdown = True"
| "isShutdown x = False"

text \<open>
  The cluster of the sketch, \<^verbatim>\<open>new LedCluster(ledPins, 6)\<close> on the pins 3, 5, 6, 9, 10
  and 11, built at time 0 over an EEPROM that holds valid settings: Chase Clockwise at
  full brightness and 18 revolutions per minute.
\<close>

definition storedSettings :: Settings where
  "storedSettings =
    \<lparr>version = 1, pattern = 1, brightnessMultiplier = 20, revsPerMinute = 18, invalid = 0\<rparr>"

definition sketchCluster :: LedCluster where
  "sketchCluster = LedCluster_new [3, 5, 6, 9, 10, 11] 0 storedSettings (\<lambda>n. 0)"

subsection \<open>The specification's speed mapping\<close>

text \<open>
  The specification's words for \<^verbatim>\<open>setSpeedPercent\<close>, to compare the code with:
  the range of 0 to 100 percent mapped linearly onto the range of 6 to 60 revolutions
  per minute.
\<close>

definition spec_linearSpeed :: "int \<Rightarrow> real" where
  "spec_linearSpeed percent = 6 + (60 - 6) * real_of_int percent / 100"

section \<open>Properties\<close>

lemmas constants_defs =
  VERSION_def PATTERN_COUNT_def MIN_BRIGHTNESS_def MAX_BRIGHTNESS_def DEFAULT_BRIGHTNESS_def
  MIN_SPEED_def MAX_SPEED_def SPEED_STEP_def DEFAULT_SPEED_def
  RAINDROP_ANGLE_def RAMPUP_ANGLE_def RAMPDOWN_ANGLE_def

lemmas method_defs =
  justOn_def chaseModeCw_def chaseModeAcw_def chaseModeBoth_def waveModeCw_def waveModeAcw_def
  throbMode_def throbMode2_def heartbeatMode_def raindropMode_def candleMode_def staticMode_def

subsection \<open>Truncation and rounding\<close>

lemma c_int_ceiling: "c_int x = (if 0 \<le> x then \<lfloor>x\<rfloor> else \<lceil>x\<rceil>)"
  by (simp add: c_int_def ceiling_def)

lemma c_int_mono: "x \<le> y \<Longrightarrow> c_int x \<le> c_int y"
proof -
  assume xy: "x \<le> y"
  consider "0 \<le> x" | "x < 0" "0 \<le> y" | "x < 0" "y < 0"
    by linarith
  then show ?thesis
  proof cases
    case 1
    with xy show ?thesis by (simp add: c_int_ceiling floor_mono)
  next
    case 2
    then have "\<lceil>x\<rceil> \<le> 0" and "0 \<le> \<lfloor>y\<rfloor>"
      by simp_all
    then have "\<lceil>x\<rceil> \<le> \<lfloor>y\<rfloor>"
      by (rule order_trans)
    with 2 show ?thesis by (simp add: c_int_ceiling)
  next
    case 3
    with xy show ?thesis by (simp add: c_int_ceiling ceiling_mono)
  qed
qed

lemma round_c_mono: "x \<le> y \<Longrightarrow> round_c x \<le> round_c y"
  unfolding round_c_def by (auto intro!: c_int_mono)

lemma round_c_of_int [simp]: "round_c (real_of_int n) = n"
  unfolding round_c_def c_int_def by (auto simp: not_le; linarith)

lemma c_int_of_int [simp]: "c_int (real_of_int n) = n"
  by (simp add: c_int_def)

lemma c_int_numeral [simp]:
  "c_int 0 = 0"
  "c_int (numeral n) = numeral n"
  "c_int (- numeral n) = - numeral n"
  by (simp_all add: c_int_def)

lemma c_int_nonneg: "0 \<le> x \<Longrightarrow> 0 \<le> c_int x"
  by (simp add: c_int_def)

lemma round_c_bounds:
  "real_of_int lo \<le> x \<Longrightarrow> x \<le> real_of_int hi \<Longrightarrow> lo \<le> round_c x \<and> round_c x \<le> hi"
  using round_c_mono [of "real_of_int lo" x] round_c_mono [of x "real_of_int hi"] by simp

lemma c_int_bounds:
  "real_of_int lo \<le> x \<Longrightarrow> x \<le> real_of_int hi \<Longrightarrow> lo \<le> c_int x \<and> c_int x \<le> hi"
  using c_int_mono [of "real_of_int lo" x] c_int_mono [of x "real_of_int hi"] by simp

lemma smod_nonneg: "0 \<le> k \<Longrightarrow> 0 < l \<Longrightarrow> k smod l = k mod (l::int)"
  by (simp add: signed_modulo_int_def sgn_if)

lemma int16_in_range: "- 32768 \<le> k \<Longrightarrow> k \<le> 32767 \<Longrightarrow> int16 k = k"
  by (simp add: int16_def)

lemma sdiv_nonneg: "0 \<le> k \<Longrightarrow> 0 < l \<Longrightarrow> k sdiv l = k div (l::int)"
  by (simp add: signed_divide_int_def sgn_if)

lemma sint_add_of_int:
  fixes w :: "32 word"
  assumes "- (2 ^ 31) \<le> sint w + n" and "sint w + n < 2 ^ 31"
  shows "sint (w + word_of_int n) = sint w + n"
proof -
  have "w + word_of_int n = word_of_int (sint w + n)"
    by simp
  then have "sint (w + word_of_int n) = signed_take_bit 31 (sint w + n)"
    by (simp only: sint_sbintrunc') simp
  also have "\<dots> = sint w + n"
    using assms by (intro signed_take_bit_int_eq_self) simp_all
  finally show ?thesis .
qed

subsection \<open>What each operation leaves alone\<close>

lemma forceRange_bounds:
  "lo \<le> hi \<Longrightarrow> lo \<le> forceRange v lo hi \<and> forceRange v lo hi \<le> hi"
  by (simp add: forceRange_def)

lemma fold_frame:
  "(\<And>x s. g (f x s) = g s) \<Longrightarrow> g (fold f xs s) = g s"
  by (induction xs arbitrary: s) simp_all

lemma random1_frame [simp]:
  "analogWrites (snd (random1 n c)) = analogWrites c"
  "leds (snd (random1 n c)) = leds c"
  "settingsNV (snd (random1 n c)) = settingsNV c"
  "settings (snd (random1 n c)) = settings c"
  "eepromPuts (snd (random1 n c)) = eepromPuts c"
  by (simp_all add: random1_def)

lemma random2_frame [simp]:
  "analogWrites (snd (random2 a b c)) = analogWrites c"
  "leds (snd (random2 a b c)) = leds c"
  "settingsNV (snd (random2 a b c)) = settingsNV c"
  "settings (snd (random2 a b c)) = settings c"
  "eepromPuts (snd (random2 a b c)) = eepromPuts c"
  by (simp_all add: random2_def split_beta Let_def)

lemma globaliseBrightness_frame [simp]:
  "analogWrites (snd (globaliseBrightness b c)) = analogWrites c"
  "leds (snd (globaliseBrightness b c)) = leds c"
  "settingsNV (snd (globaliseBrightness b c)) = settingsNV c"
  "eepromPuts (snd (globaliseBrightness b c)) = eepromPuts c"
  by (simp_all add: globaliseBrightness_def loadSettings_def Let_def)

lemma assignGlobalised_frame [simp]:
  "analogWrites (snd (assignGlobalised b led c)) = analogWrites c"
  "leds (snd (assignGlobalised b led c)) = leds c"
  "settingsNV (snd (assignGlobalised b led c)) = settingsNV c"
  "eepromPuts (snd (assignGlobalised b led c)) = eepromPuts c"
  by (simp_all add: assignGlobalised_def split_beta)

lemma patternMethod_frame [simp]:
  "analogWrites (snd (patternMethod p led info c)) = analogWrites c"
  "leds (snd (patternMethod p led info c)) = leds c"
  "settingsNV (snd (patternMethod p led info c)) = settingsNV c"
  "eepromPuts (snd (patternMethod p led info c)) = eepromPuts c"
  by (cases p; simp add: method_defs split_beta Let_def)+

lemma populateRaindrops_frame [simp]:
  "analogWrites (populateRaindrops c) = analogWrites c"
  "settingsNV (populateRaindrops c) = settingsNV c"
  "settings (populateRaindrops c) = settings c"
  "eepromPuts (populateRaindrops c) = eepromPuts c"
  unfolding populateRaindrops_def
  by (rule fold_frame, simp add: split_beta)+

lemma analogWrite_fold:
  "analogWrites (fold (\<lambda>led. analogWrite (pin led) (d led)) xs c) =
     analogWrites c @ map (\<lambda>led. (pin led, d led)) xs \<and>
   leds (fold (\<lambda>led. analogWrite (pin led) (d led)) xs c) = leds c \<and>
   running (fold (\<lambda>led. analogWrite (pin led) (d led)) xs c) = running c"
  by (induction xs arbitrary: c) (simp_all add: analogWrite_def)

lemma applyMethod_analogWrites:
  "analogWrites (applyMethod (patternMethod p) info i c) = analogWrites c"
  by (simp add: applyMethod_def split_beta)

lemma runMethod_analogWrites [simp]:
  "analogWrites (runMethod (patternMethod p) info c) = analogWrites c"
  unfolding runMethod_def
  by (rule fold_frame) (rule applyMethod_analogWrites)

lemma selectMethod_Some:
  "pattern_of (pattern (settings c)) = Some p \<Longrightarrow>
     fst (selectMethod info c) = Some (patternMethod p) \<and>
     analogWrites (snd (selectMethod info c)) = analogWrites c"
  by (cases p) (simp_all add: selectMethod_def)

lemma loadSettings_settings_update [simp]: "loadSettings (c\<lparr>settings := s\<rparr>) = loadSettings c"
  by (simp add: loadSettings_def)

lemma loadSettings_idem [simp]: "loadSettings (loadSettings c) = loadSettings c"
  by (simp add: loadSettings_def)

lemma loadSettings_frame [simp]:
  "settingsNV (loadSettings c) = settingsNV c"
  "eepromPuts (loadSettings c) = eepromPuts c"
  "running (loadSettings c) = running c"
  "analogWrites (loadSettings c) = analogWrites c"
  "leds (loadSettings c) = leds c"
  by (simp_all add: loadSettings_def)

lemma saveSettings_frame [simp]:
  "running (saveSettings c) = running c"
  "analogWrites (saveSettings c) = analogWrites c"
  "leds (saveSettings c) = leds c"
  by (simp_all add: saveSettings_def)

lemma mutate_frame:
  "running (snd (mutate m c)) = running c \<and>
   analogWrites (snd (mutate m c)) = analogWrites c \<and>
   leds (snd (mutate m c)) = leds c"
  by (cases m)
     (simp_all add: setBrightnessPercent_def setBrightness_def updateBrightness_def setPattern_def
        updatePattern_def updateSpeed_def setSpeedPercent_def setSpeed_def Let_def)

lemma poll_stopped: "\<not> running c \<Longrightarrow> poll now c = Some c"
  by (simp add: poll_def)

lemma shutdown_effect:
  "\<not> running (shutdown c) \<and> leds (shutdown c) = leds c \<and>
   analogWrites (shutdown c) = analogWrites c @ map (\<lambda>led. (pin led, 0)) (leds c)"
  using analogWrite_fold [of "\<lambda>led. 0" "leds c" "c\<lparr>running := False\<rparr>"]
  by (simp add: shutdown_def)

subsection \<open>The duty cycle table\<close>

lemma duty_table_length: "length BRIGHTNESS_TO_DUTY_CYCLE = 101"
  by (simp add: BRIGHTNESS_TO_DUTY_CYCLE_def)

lemma duty_table_le_255: "\<forall>d \<in> set BRIGHTNESS_TO_DUTY_CYCLE. d \<le> 255"
  by (simp add: BRIGHTNESS_TO_DUTY_CYCLE_def)

lemma duty_index_in_table: "nat (forceRange b 0 100) < length BRIGHTNESS_TO_DUTY_CYCLE"
  using forceRange_bounds [of 0 100 b] by (auto simp add: duty_table_length)

lemma brightnessToDutyCycle_le_255: "brightnessToDutyCycle b \<le> 255"
  using duty_table_le_255 duty_index_in_table [of b] nth_mem
  unfolding brightnessToDutyCycle_def by blast

lemma brightnessToDutyCycle_nonpos: "b \<le> 0 \<Longrightarrow> brightnessToDutyCycle b = 0"
  by (simp add: brightnessToDutyCycle_def forceRange_def BRIGHTNESS_TO_DUTY_CYCLE_def)

subsection \<open>The cluster of the sketch\<close>

lemma upt_6: "[0..<6] = [0, 1, 2, 3, 4, 5]"
  by (simp add: upt_rec)

lemmas sketch_defs =
  sketchCluster_def LedCluster_new_def storedSettings_def populateRaindrops_def upt_6
  random1_def constants_defs loadSettings_def Let_def signed_modulo_int_def signed_divide_int_def
  c_int_def round_c_def

lemma sketchCluster_leds:
  "leds sketchCluster =
    [\<lparr>index = 0, angle = 0, brightness = 0, pin = 3, extra = 0\<rparr>,
     \<lparr>index = 1, angle = 60, brightness = 0, pin = 5, extra = 0\<rparr>,
     \<lparr>index = 2, angle = 120, brightness = 0, pin = 6, extra = 0\<rparr>,
     \<lparr>index = 3, angle = 180, brightness = 0, pin = 9, extra = 0\<rparr>,
     \<lparr>index = 4, angle = 240, brightness = 0, pin = 10, extra = 0\<rparr>,
     \<lparr>index = 5, angle = 300, brightness = 0, pin = 11, extra = 0\<rparr>]"
  by (simp add: sketch_defs)

lemma sketchCluster_fields:
  "running sketchCluster"
  "startTimeMs sketchCluster = 0"
  "revTimePeriodMs sketchCluster = 3333"
  "settings sketchCluster = storedSettings"
  "settingsNV sketchCluster = storedSettings"
  "analogWrites sketchCluster = []"
  "eepromPuts sketchCluster = []"
  by (simp_all add: sketch_defs)

lemma sketchCluster_poll_0:
  "\<exists>c'. poll 0 sketchCluster = Some c' \<and>
        map brightness (leds c') = [100, 17, 33, 50, 67, 83] \<and>
        analogWrites c' = [(3, 255), (5, 18), (6, 39), (9, 66), (10, 102), (11, 152)]"
  by (simp add: poll_def getCurrentLightInfo_def sketch_defs pattern_of_def selectMethod_def
      runMethod_def applyMethod_def chaseModeCw_def chaseModeCwRaw_def assignGlobalised_def
      globaliseBrightness_def updateLedBrightnesses_def analogWrite_def brightnessToDutyCycle_def
      forceRange_def BRIGHTNESS_TO_DUTY_CYCLE_def)

lemma fast_cluster:
  "startTimeMs (snd (setSpeed 60 sketchCluster)) = 0"
  "revTimePeriodMs (snd (setSpeed 60 sketchCluster)) = 1000"
  by (simp_all add: setSpeed_def Let_def loadSettings_def saveSettings_def forceRange_def
      sketchCluster_fields storedSettings_def constants_defs)

subsection \<open>Rendering\<close>

text \<open>
  Claim C10. On every rendering tick (a \<^verbatim>\<open>poll\<close> of a running cluster whose pattern selects
  a method), the calls of \<^verbatim>\<open>analogWrite\<close> made are, LED by LED, the pin of the LED with the
  entry of the duty cycle table at the LED's brightness clamped into 0..100. For every
  LED that index lies inside the table, the value written is at most 255, and a
  brightness at or below 0 writes the duty cycle 0.
\<close>

theorem poll_emits_duty_cycles:
  assumes "running c" and "pattern_of (pattern (settings c)) = Some p"
    and "poll now c = Some c'"
  shows "analogWrites c' =
           analogWrites c @
           map (\<lambda>led. (pin led, BRIGHTNESS_TO_DUTY_CYCLE ! nat (forceRange (brightness led) 0 100)))
               (leds c') \<and>
         (\<forall>led \<in> set (leds c').
            nat (forceRange (brightness led) 0 100) < length BRIGHTNESS_TO_DUTY_CYCLE \<and>
            brightnessToDutyCycle (brightness led) \<le> 255 \<and>
            (brightness led \<le> 0 \<longrightarrow> brightnessToDutyCycle (brightness led) = 0))"
proof -
  from assms(1,3) obtain info where info: "getCurrentLightInfo now c = Some info"
    by (auto simp: poll_def split: option.splits)
  from selectMethod_Some [OF assms(2), of info]
  obtain c1 where sel: "selectMethod info c = (Some (patternMethod p), c1)"
    and aw: "analogWrites c1 = analogWrites c"
    by (cases "selectMethod info c") auto
  let ?r = "runMethod (patternMethod p) info c1"
  from assms(1,3) info sel
  have c': "c' = (updateLedBrightnesses ?r)\<lparr>lastRevolution := revolution info\<rparr>"
    by (simp add: poll_def)
  have "analogWrites c' = analogWrites ?r @
          map (\<lambda>led. (pin led, brightnessToDutyCycle (brightness led))) (leds ?r)"
    and "leds c' = leds ?r"
    using analogWrite_fold [of "\<lambda>led. brightnessToDutyCycle (brightness led)" "leds ?r" ?r]
    by (simp_all add: c' updateLedBrightnesses_def)
  then have "analogWrites c' = analogWrites c @
          map (\<lambda>led. (pin led, brightnessToDutyCycle (brightness led))) (leds c')"
    by (simp add: aw)
  then show ?thesis
    using duty_index_in_table brightnessToDutyCycle_le_255 brightnessToDutyCycle_nonpos
    by (simp add: brightnessToDutyCycle_def)
qed

theorem poll_emits_duty_cycles_witness:
  "running sketchCluster \<and>
   pattern_of (pattern (settings sketchCluster)) = Some ChaseClockwise \<and>
   (\<exists>c'. poll 0 sketchCluster = Some c' \<and>
      analogWrites c' =
        analogWrites sketchCluster @
        map (\<lambda>led. (pin led, BRIGHTNESS_TO_DUTY_CYCLE ! nat (forceRange (brightness led) 0 100)))
            (leds c') \<and>
      (\<forall>led \<in> set (leds c').
         nat (forceRange (brightness led) 0 100) < length BRIGHTNESS_TO_DUTY_CYCLE \<and>
         brightnessToDutyCycle (brightness led) \<le> 255 \<and>
         (brightness led \<le> 0 \<longrightarrow> brightnessToDutyCycle (brightness led) = 0)))"
proof -
  have r: "running sketchCluster"
    by (rule sketchCluster_fields)
  have p: "pattern_of (pattern (settings sketchCluster)) = Some ChaseClockwise"
    by (simp add: sketchCluster_fields storedSettings_def pattern_of_def)
  obtain c' where c': "poll 0 sketchCluster = Some c'"
    using sketchCluster_poll_0 by blast
  from poll_emits_duty_cycles [OF r p c'] r p c' show ?thesis
    by blast
qed

subsection \<open>Construction over invalid settings\<close>

text \<open>
  Claim C3. When the settings read from the EEPROM at construction have the invalid
  byte set or a version other than \<^verbatim>\<open>VERSION\<close>, the settings of the new cluster are the
  defaults (Chase Clockwise, brightness multiplier 18, 18 revolutions per minute), valid
  and of the current version, and the constructor has written exactly this record to
  the EEPROM.
\<close>

theorem constructor_resets_invalid_settings:
  assumes "invalid st \<noteq> 0 \<or> version st \<noteq> VERSION"
  shows "settings (LedCluster_new pins now st rnd) =
           \<lparr>version = VERSION, pattern = pattern_value ChaseClockwise,
            brightnessMultiplier = 18, revsPerMinute = 18, invalid = 0\<rparr> \<and>
         settingsNV (LedCluster_new pins now st rnd) = settings (LedCluster_new pins now st rnd) \<and>
         eepromPuts (LedCluster_new pins now st rnd) = [settings (LedCluster_new pins now st rnd)]"
  using assms
  by (auto simp add: LedCluster_new_def Let_def loadSettings_def saveSettings_def constants_defs)

theorem constructor_resets_invalid_settings_witness:
  "(invalid \<lparr>version = - 1, pattern = - 1, brightnessMultiplier = - 1, revsPerMinute = - 1, invalid = 255\<rparr> \<noteq> 0) \<and>
   settings (LedCluster_new [3, 5, 6, 9, 10, 11] 0
       \<lparr>version = - 1, pattern = - 1, brightnessMultiplier = - 1, revsPerMinute = - 1, invalid = 255\<rparr> (\<lambda>n. 0)) =
     \<lparr>version = 1, pattern = 1, brightnessMultiplier = 18, revsPerMinute = 18, invalid = 0\<rparr> \<and>
   settingsNV (LedCluster_new [3, 5, 6, 9, 10, 11] 0
       \<lparr>version = - 1, pattern = - 1, brightnessMultiplier = - 1, revsPerMinute = - 1, invalid = 255\<rparr> (\<lambda>n. 0)) =
     \<lparr>version = 1, pattern = 1, brightnessMultiplier = 18, revsPerMinute = 18, invalid = 0\<rparr> \<and>
   eepromPuts (LedCluster_new [3, 5, 6, 9, 10, 11] 0
       \<lparr>version = - 1, pattern = - 1, brightnessMultiplier = - 1, revsPerMinute = - 1, invalid = 255\<rparr> (\<lambda>n. 0)) =
     [\<lparr>version = 1, pattern = 1, brightnessMultiplier = 18, revsPerMinute = 18, invalid = 0\<rparr>]"
  using constructor_resets_invalid_settings
    [of "\<lparr>version = - 1, pattern = - 1, brightnessMultiplier = - 1, revsPerMinute = - 1, invalid = 255\<rparr>"
        "[3, 5, 6, 9, 10, 11]" 0 "\<lambda>n. 0"]
  by (simp add: VERSION_def)

subsection \<open>Global scaling\<close>

text \<open>
  Claim C5. For a raw brightness between 0 and 100, the scaled brightness does not
  decrease when the stored brightness multiplier grows within 1..20, and at the
  multiplier 20 the scaled brightness is the raw brightness.
\<close>

theorem globaliseBrightness_monotone:
  assumes "0 \<le> raw" and "raw \<le> 100"
    and "1 \<le> brightnessMultiplier (settingsNV c1)"
    and "brightnessMultiplier (settingsNV c1) \<le> brightnessMultiplier (settingsNV c2)"
    and "brightnessMultiplier (settingsNV c2) \<le> 20"
  shows "fst (globaliseBrightness raw c1) \<le> fst (globaliseBrightness raw c2) \<and>
         (brightnessMultiplier (settingsNV c2) = 20 \<longrightarrow> fst (globaliseBrightness raw c2) = raw)"
proof -
  let ?m1 = "brightnessMultiplier (settingsNV c1)" and ?m2 = "brightnessMultiplier (settingsNV c2)"
  have le: "?m1 * raw \<le> ?m2 * raw"
    using assms by (simp add: mult_right_mono)
  have scaled: "round_c (real_of_int (?m1 * raw) / 20) \<le> round_c (real_of_int (?m2 * raw) / 20)"
  proof (rule round_c_mono)
    from le have "real_of_int (?m1 * raw) \<le> real_of_int (?m2 * raw)"
      by (rule of_int_le_iff [THEN iffD2])
    then show "real_of_int (?m1 * raw) / 20 \<le> real_of_int (?m2 * raw) / 20"
      by (rule divide_right_mono) simp
  qed
  have "?m1 * raw \<le> 20 * raw"
    using assms by (simp add: mult_right_mono)
  then have "real_of_int (?m1 * raw) \<le> real_of_int (20 * raw)"
    by (rule of_int_le_iff [THEN iffD2])
  then have "real_of_int (?m1 * raw) / 20 \<le> real_of_int raw"
    by simp
  from round_c_mono [OF this] have top: "round_c (real_of_int (?m1 * raw) / 20) \<le> raw"
    by simp
  show ?thesis
    using scaled top assms
    by (auto simp add: globaliseBrightness_def loadSettings_def Let_def MAX_BRIGHTNESS_def)
qed

theorem globaliseBrightness_monotone_witness:
  "(0::int) \<le> 50 \<and> (50::int) \<le> 100 \<and>
   1 \<le> brightnessMultiplier (settingsNV (sketchCluster\<lparr>settingsNV := storedSettings\<lparr>brightnessMultiplier := 10\<rparr>\<rparr>)) \<and>
   brightnessMultiplier (settingsNV (sketchCluster\<lparr>settingsNV := storedSettings\<lparr>brightnessMultiplier := 10\<rparr>\<rparr>))
     \<le> brightnessMultiplier (settingsNV sketchCluster) \<and>
   brightnessMultiplier (settingsNV sketchCluster) \<le> 20 \<and>
   fst (globaliseBrightness 50 (sketchCluster\<lparr>settingsNV := storedSettings\<lparr>brightnessMultiplier := 10\<rparr>\<rparr>))
     \<le> fst (globaliseBrightness 50 sketchCluster) \<and>
   fst (globaliseBrightness 50 sketchCluster) = 50"
  using globaliseBrightness_monotone
    [of 50 "sketchCluster\<lparr>settingsNV := storedSettings\<lparr>brightnessMultiplier := 10\<rparr>\<rparr>" sketchCluster]
  by (simp add: sketchCluster_fields storedSettings_def)

subsection \<open>Setting the pattern\<close>

text \<open>
  Claim C2 says that \<^verbatim>\<open>setPattern\<close> leaves a pattern index between 0 and
  \<^verbatim>\<open>PATTERN_COUNT - 1\<close>. The code clamps to \<^verbatim>\<open>PATTERN_COUNT\<close> itself: for every argument
  from \<^verbatim>\<open>PATTERN_COUNT\<close> upwards the index stored, in memory and in the EEPROM, is
  \<^verbatim>\<open>PATTERN_COUNT\<close>, which is no pattern and lies beyond \<^verbatim>\<open>PATTERN_COUNT - 1\<close>.
\<close>

theorem setPattern_stores_PATTERN_COUNT:
  "pattern (settingsNV (snd (setPattern (PATTERN_COUNT + int n) c))) = PATTERN_COUNT \<and>
   pattern (settings (snd (setPattern (PATTERN_COUNT + int n) c))) = PATTERN_COUNT \<and>
   pattern_of PATTERN_COUNT = None \<and> \<not> PATTERN_COUNT \<le> PATTERN_COUNT - 1"
  by (simp add: setPattern_def Let_def loadSettings_def saveSettings_def forceRange_def
      PATTERN_COUNT_def pattern_of_def)

subsection \<open>Setting the speed as a percentage\<close>

text \<open>
  Claim C6 as stated: the speed applied is the linear image of the percentage in the
  range 6..60. It fails at 50 percent, where the code applies 30 revolutions per minute
  and the linear image is 33.
\<close>

theorem setSpeedPercent_linear_counterexample:
  "\<not> \<bar>real_of_int (revsPerMinute (settingsNV (snd (setSpeedPercent 50 sketchCluster)))) - spec_linearSpeed 50\<bar> < 1"
  by (simp add: setSpeedPercent_def setSpeed_def Let_def loadSettings_def saveSettings_def forceRange_def
      constants_defs sketchCluster_fields storedSettings_def spec_linearSpeed_def signed_divide_int_def
      int16_def)

text \<open>
  Claim C6 as amended: for a percentage between 0 and 100, \<^verbatim>\<open>setSpeedPercent\<close> applies
  that percentage of the maximum speed of 60 revolutions per minute, rounded down, and
  no less than 6; the speed applied lies between 6 and 60.
\<close>

theorem setSpeedPercent_applies:
  assumes "0 \<le> percent" and "percent \<le> 100"
  shows "revsPerMinute (settingsNV (snd (setSpeedPercent percent c))) = max 6 ((60 * percent) div 100) \<and>
         revsPerMinute (settings (snd (setSpeedPercent percent c))) = max 6 ((60 * percent) div 100) \<and>
         6 \<le> revsPerMinute (settingsNV (snd (setSpeedPercent percent c))) \<and>
         revsPerMinute (settingsNV (snd (setSpeedPercent percent c))) \<le> 60"
proof -
  have "int16 (60 * percent) = 60 * percent"
    using assms by (intro int16_in_range) simp_all
  then have sd: "int16 (60 * percent) sdiv 100 = (60 * percent) div 100"
    using assms by (simp add: signed_divide_int_def sgn_if)
  have le: "(60 * percent) div 100 \<le> 60"
    using assms by linarith
  show ?thesis
    using le
    by (auto simp add: setSpeedPercent_def setSpeed_def Let_def loadSettings_def saveSettings_def
        forceRange_def constants_defs sd)
qed

theorem setSpeedPercent_applies_witness:
  "(0::int) \<le> 50 \<and> (50::int) \<le> 100 \<and>
   revsPerMinute (settingsNV (snd (setSpeedPercent 50 sketchCluster))) = 30 \<and>
   revsPerMinute (settings (snd (setSpeedPercent 50 sketchCluster))) = 30"
  using setSpeedPercent_applies [of 50 sketchCluster] by simp

subsection \<open>The raw brightness of the patterns\<close>

text \<open>The brightness a pattern leaves in the LED is its raw brightness, scaled.\<close>

lemma globaliseBrightness_zero [simp]: "fst (globaliseBrightness 0 c) = 0"
  by (simp add: globaliseBrightness_def Let_def round_c_def c_int_def)

lemma globaliseBrightness_settingsNV:
  "settingsNV c' = settingsNV c \<Longrightarrow> fst (globaliseBrightness b c') = fst (globaliseBrightness b c)"
  by (simp add: globaliseBrightness_def Let_def loadSettings_def)

lemma assignGlobalised_brightness [simp]:
  "brightness (fst (assignGlobalised v led c)) = fst (globaliseBrightness v c)"
  by (simp add: assignGlobalised_def split_beta)

lemma patternMethod_brightness:
  "brightness (fst (patternMethod p led info c)) =
     fst (globaliseBrightness (rawBrightness p led info c) c)"
proof (cases p)
  case Raindrop
  then show ?thesis
    by (simp add: raindropMode_def raindropModeRaw_def Let_def)
next
  case Flames
  then show ?thesis
    by (simp add: candleMode_def candleModeRaw_def Let_def split_beta
        globaliseBrightness_settingsNV [of "snd (random2 (- 4) 4 c)" c])
next
  case Static
  have "settingsNV (snd (random2 (- 10) 40 (snd (candleMode led info c)))) = settingsNV c"
    using patternMethod_frame(3) [of Flames led info c] by simp
  from globaliseBrightness_settingsNV [OF this] Static show ?thesis
    by (simp add: staticMode_def staticModeRaw_def Let_def split_beta)
qed (simp_all add: method_defs)

text \<open>The brightness of a chase, for an angle behind the lead between 0 and 359.\<close>

lemma chase_brightness_range:
  assumes "0 \<le> a" and "a < 360"
  shows "0 \<le> round_c ((100 * real_of_int (360 - a)) / 360) \<and>
         round_c ((100 * real_of_int (360 - a)) / 360) \<le> 100"
proof (rule round_c_bounds)
  show "real_of_int 0 \<le> 100 * real_of_int (360 - a) / 360"
    using assms by simp
  show "100 * real_of_int (360 - a) / 360 \<le> real_of_int 100"
    using assms by simp
qed

lemma chase_angle_range:
  assumes "0 \<le> x"
  shows "0 \<le> c_int x smod 360 \<and> c_int x smod 360 < 360"
  using c_int_nonneg [OF assms] by (simp add: smod_nonneg)

lemma chaseModeCwRaw_range:
  assumes "angle led < 360" and "0 \<le> LightLocationInfo.angle info"
  shows "0 \<le> chaseModeCwRaw led info \<and> chaseModeCwRaw led info \<le> 100"
proof -
  have "0 \<le> (LightLocationInfo.angle info + 360) - angle led"
    using assms by simp
  from chase_angle_range [OF this] show ?thesis
    unfolding chaseModeCwRaw_def Let_def by (intro chase_brightness_range) simp_all
qed

lemma chaseModeAcwRaw_range:
  assumes "0 \<le> angle led" and "0 \<le> LightLocationInfo.angle info"
  shows "0 \<le> chaseModeAcwRaw led info \<and> chaseModeAcwRaw led info \<le> 100"
proof -
  have "0 \<le> (LightLocationInfo.angle info + 360) + angle led"
    using assms by simp
  from chase_angle_range [OF this] show ?thesis
    unfolding chaseModeAcwRaw_def Let_def by (intro chase_brightness_range) simp_all
qed

lemma chaseModeBothRaw_range:
  assumes "0 \<le> angle led" and "angle led < 360" and "0 \<le> LightLocationInfo.angle info"
  shows "0 \<le> chaseModeBothRaw led info \<and> chaseModeBothRaw led info \<le> 100"
proof -
  have "0 \<le> (LightLocationInfo.angle info + 360) - angle led"
    and "0 \<le> (LightLocationInfo.angle info + 360) + angle led"
    using assms by simp_all
  from chase_angle_range [OF this(1)] chase_angle_range [OF this(2)] show ?thesis
    unfolding chaseModeBothRaw_def Let_def by (intro chase_brightness_range) (simp_all add: min_def)
qed

lemma waveModeAcwRaw_range:
  assumes "0 \<le> angle led" and "0 \<le> LightLocationInfo.angle info"
    and "LightLocationInfo.angle info < 360"
  shows "0 \<le> waveModeAcwRaw led info \<and> waveModeAcwRaw led info \<le> 100"
proof -
  define a0 where "a0 = c_int (LightLocationInfo.angle info - angle led)"
  have "LightLocationInfo.angle info - angle led \<le> real_of_int 360"
    using assms by simp
  from c_int_mono [OF this] have "a0 \<le> 360"
    by (simp add: a0_def)
  then have nonneg: "0 \<le> (360 - a0) + 180"
    by simp
  define s where "s = ((360 - a0) + 180) smod 360"
  have "0 \<le> s \<and> s < 360"
    using nonneg by (simp add: s_def smod_nonneg)
  then have "0 \<le> 180 - \<bar>s - 180\<bar> \<and> 180 - \<bar>s - 180\<bar> \<le> 180"
    by linarith
  then have "real_of_int 0 \<le> (100 * real_of_int (180 - \<bar>s - 180\<bar>)) / 180 \<and>
             (100 * real_of_int (180 - \<bar>s - 180\<bar>)) / 180 \<le> real_of_int 100"
    by simp
  then show ?thesis
    unfolding waveModeAcwRaw_def Let_def a0_def [symmetric] s_def [symmetric]
    by (intro round_c_bounds) simp_all
qed

lemma waveModeCwRaw_range:
  assumes "angle led \<le> LightLocationInfo.angle info + 180"
  shows "0 \<le> waveModeCwRaw led info \<and> waveModeCwRaw led info \<le> 100"
proof -
  define a0 where "a0 = c_int (LightLocationInfo.angle info - angle led)"
  have "real_of_int (- 180) \<le> LightLocationInfo.angle info - angle led"
    using assms by simp
  from c_int_mono [OF this] have nonneg: "0 \<le> a0 + 180"
    by (simp add: a0_def)
  define s where "s = (a0 + 180) smod 360"
  have "0 \<le> s \<and> s < 360"
    using nonneg by (simp add: s_def smod_nonneg)
  then have "0 \<le> 180 - \<bar>s - 180\<bar> \<and> 180 - \<bar>s - 180\<bar> \<le> 180"
    by linarith
  then have "real_of_int 0 \<le> (100 * real_of_int (180 - \<bar>s - 180\<bar>)) / 180 \<and>
             (100 * real_of_int (180 - \<bar>s - 180\<bar>)) / 180 \<le> real_of_int 100"
    by simp
  then show ?thesis
    unfolding waveModeCwRaw_def Let_def a0_def [symmetric] s_def [symmetric]
    by (intro round_c_bounds) simp_all
qed

lemma throbModeRaw_range: "0 \<le> throbModeRaw led info \<and> throbModeRaw led info \<le> 100"
proof -
  let ?x = "cos (real_of_int (throbValue info) * RADS_PER_DEGREE)"
  have "0 \<le> 1 + ?x" and "1 + ?x \<le> 2"
    using cos_ge_minus_one [of "real_of_int (throbValue info) * RADS_PER_DEGREE"]
      cos_le_one [of "real_of_int (throbValue info) * RADS_PER_DEGREE"]
    by linarith+
  then have "real_of_int 0 \<le> (1 + ?x) * 50" and "(1 + ?x) * 50 \<le> real_of_int 100"
    by simp_all
  then show ?thesis
    unfolding throbModeRaw_def by (rule c_int_bounds)
qed

lemma throbMode2Raw_range: "0 \<le> throbMode2Raw led info \<and> throbMode2Raw led info \<le> 100"
proof -
  let ?x = "sin (real_of_int (throbValue info) * RADS_PER_DEGREE)"
  have "0 \<le> 1 + ?x" and "1 + ?x \<le> 2"
    using sin_ge_minus_one [of "real_of_int (throbValue info) * RADS_PER_DEGREE"]
      sin_le_one [of "real_of_int (throbValue info) * RADS_PER_DEGREE"]
    by linarith+
  then have "real_of_int 0 \<le> (1 + ?x) * 50" and "(1 + ?x) * 50 \<le> real_of_int 100"
    by simp_all
  then show ?thesis
    unfolding throbMode2Raw_def by (rule c_int_bounds)
qed

lemma heartbeatModeRaw_range:
  assumes "0 \<le> LightLocationInfo.angle info" and "LightLocationInfo.angle info < 360"
  shows "- 100 \<le> heartbeatModeRaw led info \<and> heartbeatModeRaw led info \<le> 100"
proof -
  let ?a = "LightLocationInfo.angle info"
  define delta where "delta = round_c (min \<bar>225 - ?a\<bar> \<bar>135 - ?a\<bar>)"
  define percent where "percent = round_c (real_of_int (100 * delta) / 135)"
  have "real_of_int 0 \<le> min \<bar>225 - ?a\<bar> \<bar>135 - ?a\<bar>"
    and "min \<bar>225 - ?a\<bar> \<bar>135 - ?a\<bar> \<le> real_of_int 135"
    using assms by (simp_all add: min_def) linarith+
  then have delta: "0 \<le> delta \<and> delta \<le> 135"
    unfolding delta_def by (rule round_c_bounds)
  then have "real_of_int 0 \<le> real_of_int (100 * delta) / 135"
    and "real_of_int (100 * delta) / 135 \<le> real_of_int 100"
    by simp_all
  then have percent: "0 \<le> percent \<and> percent \<le> 100"
    unfolding percent_def by (rule round_c_bounds)
  have "(real_of_int (100 - percent) * 2) - 100 = real_of_int (100 - 2 * percent)"
    by simp
  then have "round_c ((real_of_int (100 - percent) * 2) - 100) = 100 - 2 * percent"
    by (simp only: round_c_of_int)
  then show ?thesis
    using percent
    unfolding heartbeatModeRaw_def Let_def delta_def [symmetric] percent_def [symmetric]
    by simp
qed

lemma raindropModeRaw_range: "0 \<le> raindropModeRaw led info \<and> raindropModeRaw led info \<le> 100"
proof -
  define p where "p = raindropPosition led info"
  have up: "0 \<le> raindropRampUp p \<and> raindropRampUp p \<le> 100" if "0 \<le> p" "p < 3"
    unfolding raindropRampUp_def RAMPUP_ANGLE_def
    by (rule round_c_bounds) (use that in simp_all)
  have "0 \<le> round_c ((100 * real_of_int (p - 3)) / 9) \<and>
        round_c ((100 * real_of_int (p - 3)) / 9) \<le> 100" if "3 \<le> p" "p < 12"
    by (rule round_c_bounds) (use that in simp_all)
  then have down: "0 \<le> raindropRampDown p \<and> raindropRampDown p \<le> 100" if "3 \<le> p" "p < 12"
    using that by (simp add: raindropRampDown_def constants_defs)
  show ?thesis
    using up down
    unfolding raindropModeRaw_def Let_def p_def [symmetric]
    by (simp add: constants_defs)
qed

lemma candleModeRaw_range: "0 \<le> candleModeRaw led info c \<and> candleModeRaw led info c \<le> 100"
  unfolding candleModeRaw_def by (rule forceRange_bounds) simp

lemma staticModeRaw_range: "0 \<le> staticModeRaw led info c \<and> staticModeRaw led info c \<le> 100"
  unfolding staticModeRaw_def Let_def split_beta by (rule forceRange_bounds) simp

text \<open>
  Claim C1 as stated: every pattern's raw brightness lies between 0 and 100. It fails for
  the Heartbeat pattern at the lead angle 0, for any LED: the raw brightness is \<open>-100\<close>.
\<close>

theorem heartbeat_raw_counterexample:
  "\<not> (0 \<le> rawBrightness Heartbeat (leds sketchCluster ! 0)
              \<lparr>LightLocationInfo.angle = 0, revolution = 0\<rparr> sketchCluster \<and>
       rawBrightness Heartbeat (leds sketchCluster ! 0)
              \<lparr>LightLocationInfo.angle = 0, revolution = 0\<rparr> sketchCluster \<le> 100)"
  by (simp add: heartbeatModeRaw_def Let_def round_c_def c_int_def)

text \<open>
  Claim C1 as amended: for an LED at an angle in \<open>[0, 360)\<close> and a lead angle in
  \<open>[0, 360)\<close>, at any revolution, the raw brightness is a whole number that lies
  between 0 and 100 for every pattern other than Heartbeat and Wave Clockwise, and for
  Wave Clockwise while the LED is no more than 180 degrees ahead of the lead; the raw
  brightness of Heartbeat lies between \<open>-100\<close> and 100.
\<close>

theorem rawBrightness_range:
  assumes "0 \<le> angle led" and "angle led < 360"
    and "0 \<le> LightLocationInfo.angle info" and "LightLocationInfo.angle info < 360"
  shows "(p \<noteq> Heartbeat \<and> p \<noteq> WaveClockwise \<longrightarrow>
            0 \<le> rawBrightness p led info c \<and> rawBrightness p led info c \<le> 100) \<and>
         (p = WaveClockwise \<and> angle led \<le> LightLocationInfo.angle info + 180 \<longrightarrow>
            0 \<le> rawBrightness p led info c \<and> rawBrightness p led info c \<le> 100) \<and>
         (p = Heartbeat \<longrightarrow>
            - 100 \<le> rawBrightness p led info c \<and> rawBrightness p led info c \<le> 100)"
proof (cases p)
  case ChaseClockwise
  with chaseModeCwRaw_range [of led info] assms show ?thesis by simp
next
  case ChaseAntiClockwise
  with chaseModeAcwRaw_range [of led info] assms show ?thesis by simp
next
  case ChaseBoth
  with chaseModeBothRaw_range [of led info] assms show ?thesis by simp
next
  case WaveClockwise
  with waveModeCwRaw_range [of led info] show ?thesis by simp
next
  case WaveAntiClockwise
  with waveModeAcwRaw_range [of led info] assms show ?thesis by simp
next
  case Throb
  with throbModeRaw_range [of led info] show ?thesis by simp
next
  case Throb2
  with throbMode2Raw_range [of led info] show ?thesis by simp
next
  case Heartbeat
  with heartbeatModeRaw_range [of info led] assms show ?thesis by simp
next
  case Raindrop
  with raindropModeRaw_range [of led info] show ?thesis by simp
next
  case Flames
  with candleModeRaw_range [of led info c] show ?thesis by simp
next
  case Static
  with staticModeRaw_range [of led info c] show ?thesis by simp
qed simp

theorem rawBrightness_range_witness:
  "0 \<le> angle (leds sketchCluster ! 5) \<and> angle (leds sketchCluster ! 5) < 360 \<and>
   (0::real) \<le> LightLocationInfo.angle \<lparr>LightLocationInfo.angle = 0, revolution = 0\<rparr> \<and>
   LightLocationInfo.angle \<lparr>LightLocationInfo.angle = 0, revolution = 0\<rparr> < 360 \<and>
   ChaseClockwise \<noteq> Heartbeat \<and> ChaseClockwise \<noteq> WaveClockwise \<and>
   0 \<le> rawBrightness ChaseClockwise (leds sketchCluster ! 5)
          \<lparr>LightLocationInfo.angle = 0, revolution = 0\<rparr> sketchCluster \<and>
   rawBrightness ChaseClockwise (leds sketchCluster ! 5)
          \<lparr>LightLocationInfo.angle = 0, revolution = 0\<rparr> sketchCluster \<le> 100 \<and>
   angle (leds sketchCluster ! 0) \<le> LightLocationInfo.angle \<lparr>LightLocationInfo.angle = 0, revolution = 0\<rparr> + 180 \<and>
   0 \<le> rawBrightness WaveClockwise (leds sketchCluster ! 0)
          \<lparr>LightLocationInfo.angle = 0, revolution = 0\<rparr> sketchCluster \<and>
   rawBrightness WaveClockwise (leds sketchCluster ! 0)
          \<lparr>LightLocationInfo.angle = 0, revolution = 0\<rparr> sketchCluster \<le> 100 \<and>
   - 100 \<le> rawBrightness Heartbeat (leds sketchCluster ! 0)
          \<lparr>LightLocationInfo.angle = 0, revolution = 0\<rparr> sketchCluster \<and>
   rawBrightness Heartbeat (leds sketchCluster ! 0)
          \<lparr>LightLocationInfo.angle = 0, revolution = 0\<rparr> sketchCluster \<le> 100"
  using rawBrightness_range [of "leds sketchCluster ! 5"
          "\<lparr>LightLocationInfo.angle = 0, revolution = 0\<rparr>" ChaseClockwise sketchCluster]
    rawBrightness_range [of "leds sketchCluster ! 0"
          "\<lparr>LightLocationInfo.angle = 0, revolution = 0\<rparr>" WaveClockwise sketchCluster]
    rawBrightness_range [of "leds sketchCluster ! 0"
          "\<lparr>LightLocationInfo.angle = 0, revolution = 0\<rparr>" Heartbeat sketchCluster]
  by (simp add: sketchCluster_leds)

subsection \<open>The Chase Clockwise scenario\<close>

text \<open>
  Claim C7 as stated: with six LEDs, Chase Clockwise, the lead at 0 degrees and the
  brightness multiplier 20, the LEDs at 0, 180 and 300 degrees get the brightness 100,
  50 and 17. It fails at the LED at 300 degrees of the sketch's cluster, whose
  brightness is 83.
\<close>

theorem chase_cw_scenario_counterexample:
  "\<not> (brightness (fst (chaseModeCw (leds sketchCluster ! 0)
           \<lparr>LightLocationInfo.angle = 0, revolution = 0\<rparr> sketchCluster)) = 100 \<and>
       brightness (fst (chaseModeCw (leds sketchCluster ! 3)
           \<lparr>LightLocationInfo.angle = 0, revolution = 0\<rparr> sketchCluster)) = 50 \<and>
       brightness (fst (chaseModeCw (leds sketchCluster ! 5)
           \<lparr>LightLocationInfo.angle = 0, revolution = 0\<rparr> sketchCluster)) = 17)"
  by (simp add: sketchCluster_leds sketchCluster_fields storedSettings_def chaseModeCw_def
      chaseModeCwRaw_def assignGlobalised_def globaliseBrightness_def loadSettings_def Let_def
      round_c_def c_int_def signed_modulo_int_def MAX_BRIGHTNESS_def)

text \<open>
  Claim C7 as amended: with Chase Clockwise, the lead at 0 degrees and the brightness
  multiplier 20, the LED at 0 degrees gets the brightness 100, the LED at 180 degrees
  gets 50 and the LED at 300 degrees gets 83; it is the LED at 60 degrees that gets 17.
\<close>

theorem chase_cw_scenario:
  assumes "brightnessMultiplier (settingsNV c) = MAX_BRIGHTNESS"
    and "LightLocationInfo.angle info = 0"
  shows "brightness (fst (chaseModeCw (led\<lparr>angle := 0\<rparr>) info c)) = 100 \<and>
         brightness (fst (chaseModeCw (led\<lparr>angle := 60\<rparr>) info c)) = 17 \<and>
         brightness (fst (chaseModeCw (led\<lparr>angle := 180\<rparr>) info c)) = 50 \<and>
         brightness (fst (chaseModeCw (led\<lparr>angle := 300\<rparr>) info c)) = 83"
  using assms
  by (simp add: chaseModeCw_def chaseModeCwRaw_def assignGlobalised_def globaliseBrightness_def
      loadSettings_def Let_def round_c_def c_int_def signed_modulo_int_def)

theorem chase_cw_scenario_witness:
  "brightnessMultiplier (settingsNV sketchCluster) = MAX_BRIGHTNESS \<and>
   LightLocationInfo.angle \<lparr>LightLocationInfo.angle = 0, revolution = 0\<rparr> = 0 \<and>
   map angle (leds sketchCluster) = [0, 60, 120, 180, 240, 300] \<and>
   brightness (fst (chaseModeCw (leds sketchCluster ! 0)
      \<lparr>LightLocationInfo.angle = 0, revolution = 0\<rparr> sketchCluster)) = 100 \<and>
   brightness (fst (chaseModeCw (leds sketchCluster ! 1)
      \<lparr>LightLocationInfo.angle = 0, revolution = 0\<rparr> sketchCluster)) = 17 \<and>
   brightness (fst (chaseModeCw (leds sketchCluster ! 3)
      \<lparr>LightLocationInfo.angle = 0, revolution = 0\<rparr> sketchCluster)) = 50 \<and>
   brightness (fst (chaseModeCw (leds sketchCluster ! 5)
      \<lparr>LightLocationInfo.angle = 0, revolution = 0\<rparr> sketchCluster)) = 83"
  using chase_cw_scenario [of sketchCluster "\<lparr>LightLocationInfo.angle = 0, revolution = 0\<rparr>"
      "\<lparr>index = 0, angle = 0, brightness = 0, pin = 3, extra = 0\<rparr>"]
    chase_cw_scenario [of sketchCluster "\<lparr>LightLocationInfo.angle = 0, revolution = 0\<rparr>"
      "\<lparr>index = 1, angle = 60, brightness = 0, pin = 5, extra = 0\<rparr>"]
    chase_cw_scenario [of sketchCluster "\<lparr>LightLocationInfo.angle = 0, revolution = 0\<rparr>"
      "\<lparr>index = 3, angle = 180, brightness = 0, pin = 9, extra = 0\<rparr>"]
    chase_cw_scenario [of sketchCluster "\<lparr>LightLocationInfo.angle = 0, revolution = 0\<rparr>"
      "\<lparr>index = 5, angle = 300, brightness = 0, pin = 11, extra = 0\<rparr>"]
  by (simp add: sketchCluster_leds sketchCluster_fields storedSettings_def MAX_BRIGHTNESS_def)

subsection \<open>The cycle clock\<close>

text \<open>
  Claim C4 as stated: for every start time, period, time \<open>t\<close> of non-negative elapsed
  time and \<open>k \<ge> 0\<close>, the angle sampled at \<open>t + k * period\<close> is the angle sampled at
  \<open>t\<close>, and the revolution is larger by \<open>k\<close>. It fails when the elapsed time passes
  \<open>2 ^ 31 - 1\<close> milliseconds: with the start time 0 and the period 1000 (60 revolutions
  per minute), the sample at \<open>t = 0\<close> has the angle 0 and the revolution 0, and the
  sample 2147484 periods later has a negative angle and a negative revolution.
\<close>

theorem cycle_clock_overflow_counterexample:
  "0 \<le> sint ((0 :: 32 word) - startTimeMs (snd (setSpeed 60 sketchCluster))) \<and>
   getCurrentLightInfo 0 (snd (setSpeed 60 sketchCluster)) =
     Some \<lparr>LightLocationInfo.angle = 0, revolution = 0\<rparr> \<and>
   getCurrentLightInfo (0 + word_of_int (2147484 * revTimePeriodMs (snd (setSpeed 60 sketchCluster))))
       (snd (setSpeed 60 sketchCluster)) =
     Some \<lparr>LightLocationInfo.angle = - 2664 / 25, revolution = - 2147483\<rparr> \<and>
   map_option LightLocationInfo.angle
     (getCurrentLightInfo (0 + word_of_int (2147484 * revTimePeriodMs (snd (setSpeed 60 sketchCluster))))
        (snd (setSpeed 60 sketchCluster))) \<noteq>
   map_option LightLocationInfo.angle (getCurrentLightInfo 0 (snd (setSpeed 60 sketchCluster)))"
  by (simp add: getCurrentLightInfo_def Let_def fast_cluster signed_modulo_int_def
      signed_divide_int_def)

text \<open>
  Claim C4 as amended: for every start time, every positive period, every time \<open>t\<close>
  of non-negative elapsed time and every \<open>k \<ge> 0\<close> such that the elapsed time at
  \<open>t + k * period\<close> is below \<open>2 ^ 31\<close> milliseconds, both samples exist, the angle
  sampled at \<open>t + k * period\<close> is the angle sampled at \<open>t\<close>, which lies in
  \<open>[0, 360)\<close>, and the revolution sampled is larger by exactly \<open>k\<close>.
\<close>

theorem cycle_clock_periodic:
  assumes "0 < revTimePeriodMs c"
    and "0 \<le> sint (t - startTimeMs c)"
    and "0 \<le> k"
    and "sint (t - startTimeMs c) + k * revTimePeriodMs c < 2 ^ 31"
  shows "\<exists>i j. getCurrentLightInfo t c = Some i \<and>
               getCurrentLightInfo (t + word_of_int (k * revTimePeriodMs c)) c = Some j \<and>
               LightLocationInfo.angle j = LightLocationInfo.angle i \<and>
               revolution j = revolution i + k \<and>
               0 \<le> LightLocationInfo.angle i \<and> LightLocationInfo.angle i < 360"
proof -
  let ?P = "revTimePeriodMs c" and ?e = "sint (t - startTimeMs c)"
  have kP: "0 \<le> k * ?P"
    using assms by simp
  have shift: "t + word_of_int (k * ?P) - startTimeMs c = (t - startTimeMs c) + word_of_int (k * ?P)"
    by (simp only: add_diff_eq diff_add_eq)
  have "sint ((t - startTimeMs c) + word_of_int (k * ?P)) = ?e + k * ?P"
    using assms kP by (intro sint_add_of_int) linarith+
  then have later: "sint (t + word_of_int (k * ?P) - startTimeMs c) = ?e + k * ?P"
    by (simp only: shift)
  have e': "0 \<le> ?e + k * ?P"
    using assms kP by linarith
  have m: "(?e + k * ?P) smod ?P = ?e smod ?P"
    using assms e' by (simp add: smod_nonneg)
  have d: "(?e + k * ?P) sdiv ?P = ?e sdiv ?P + k"
    using assms e' by (simp add: sdiv_nonneg)
  have r: "0 \<le> ?e smod ?P \<and> ?e smod ?P < ?P"
    using assms by (simp add: smod_nonneg)
  then have "0 \<le> (360 * real_of_int (?e smod ?P)) / real_of_int ?P"
    and "(360 * real_of_int (?e smod ?P)) / real_of_int ?P < 360"
    using assms by (simp_all add: divide_less_eq)
  then show ?thesis
    using assms(1) later m d by (simp add: getCurrentLightInfo_def Let_def)
qed

theorem cycle_clock_periodic_witness:
  "0 < revTimePeriodMs sketchCluster \<and>
   0 \<le> sint ((5000 :: 32 word) - startTimeMs sketchCluster) \<and>
   (0 :: int) \<le> 3 \<and>
   sint ((5000 :: 32 word) - startTimeMs sketchCluster) + 3 * revTimePeriodMs sketchCluster < 2 ^ 31 \<and>
   (\<exists>i j. getCurrentLightInfo 5000 sketchCluster = Some i \<and>
          getCurrentLightInfo (5000 + word_of_int (3 * revTimePeriodMs sketchCluster)) sketchCluster = Some j \<and>
          LightLocationInfo.angle j = LightLocationInfo.angle i \<and>
          revolution j = revolution i + 3 \<and>
          0 \<le> LightLocationInfo.angle i \<and> LightLocationInfo.angle i < 360)"
  using cycle_clock_periodic [of sketchCluster 5000 3]
  by (simp add: sketchCluster_fields)

subsection \<open>The settings mutators\<close>

lemma setBrightness_writes:
  "fst (setBrightness v c) = (settingsNV (snd (setBrightness v c)) \<noteq> settingsNV c) \<and>
   eepromPuts (snd (setBrightness v c)) =
     eepromPuts c @ (if fst (setBrightness v c) then [settingsNV (snd (setBrightness v c))] else []) \<and>
   settings (snd (setBrightness v c)) = settingsNV (snd (setBrightness v c))"
  by (auto simp add: setBrightness_def Let_def loadSettings_def saveSettings_def
      dest: arg_cong [where f = brightnessMultiplier])

lemma setPattern_writes:
  "fst (setPattern v c) = (settingsNV (snd (setPattern v c)) \<noteq> settingsNV c) \<and>
   eepromPuts (snd (setPattern v c)) =
     eepromPuts c @ (if fst (setPattern v c) then [settingsNV (snd (setPattern v c))] else []) \<and>
   settings (snd (setPattern v c)) = settingsNV (snd (setPattern v c))"
  by (auto simp add: setPattern_def Let_def loadSettings_def saveSettings_def
      dest: arg_cong [where f = pattern])

lemma setSpeed_writes:
  "fst (setSpeed v c) = (settingsNV (snd (setSpeed v c)) \<noteq> settingsNV c) \<and>
   eepromPuts (snd (setSpeed v c)) =
     eepromPuts c @ (if fst (setSpeed v c) then [settingsNV (snd (setSpeed v c))] else []) \<and>
   settings (snd (setSpeed v c)) = settingsNV (snd (setSpeed v c))"
  by (auto simp add: setSpeed_def Let_def loadSettings_def saveSettings_def
      dest: arg_cong [where f = revsPerMinute])

lemma setBrightness_stores:
  "settingsNV (snd (setBrightness v c)) =
     (settingsNV c)\<lparr>brightnessMultiplier := forceRange v MIN_BRIGHTNESS MAX_BRIGHTNESS\<rparr>"
  by (simp add: setBrightness_def Let_def loadSettings_def saveSettings_def)

lemma setPattern_stores:
  "settingsNV (snd (setPattern v c)) = (settingsNV c)\<lparr>pattern := forceRange v 0 PATTERN_COUNT\<rparr>"
  by (simp add: setPattern_def Let_def loadSettings_def saveSettings_def)

lemma setSpeed_stores:
  "settingsNV (snd (setSpeed v c)) = (settingsNV c)\<lparr>revsPerMinute := forceRange v MIN_SPEED MAX_SPEED\<rparr>"
  by (simp add: setSpeed_def Let_def loadSettings_def saveSettings_def)

text \<open>
  Beyond the 16 bit range the product wraps before it is divided: 547 percent of the
  speed leave \<open>60 * 547 - 65536 = -32716\<close>, hence the minimum speed, and 1639 percent
  of the brightness leave \<open>1639 * 20 - 65536 = -32756\<close>, hence the minimum brightness.
\<close>

lemma percent_wraps:
  "revsPerMinute (settingsNV (snd (setSpeedPercent 547 sketchCluster))) = 6"
  "brightnessMultiplier (settingsNV (snd (setBrightnessPercent 1639 sketchCluster))) = 1"
  by (simp_all add: setSpeedPercent_def setBrightnessPercent_def setSpeed_stores setBrightness_stores
      sketchCluster_fields storedSettings_def forceRange_def constants_defs int16_def
      signed_divide_int_def)

text \<open>
  Claim C8. Every settings mutator, relative or absolute, for the pattern, the
  brightness or the speed, reads the settings afresh from the EEPROM (the call does not
  depend on the settings in memory before it), computes the clamped or wrapped new value
  of its field from them, in 16 bit arithmetic, and returns true exactly when the
  settings held in the EEPROM after the call differ from those held before. It hands a
  value to \<^verbatim>\<open>EEPROM.put\<close> exactly then, once, and that value is the stored settings
  with the new value in the field; otherwise the EEPROM keeps its settings. Afterwards
  the settings in memory are the settings in the EEPROM.
\<close>

theorem mutator_writes_iff_changed:
  "fst (mutate m c) = (settingsNV (snd (mutate m c)) \<noteq> settingsNV c) \<and>
   eepromPuts (snd (mutate m c)) =
     eepromPuts c @ (if fst (mutate m c) then [settingsNV (snd (mutate m c))] else []) \<and>
   settings (snd (mutate m c)) = settingsNV (snd (mutate m c)) \<and>
   mutate m (c\<lparr>settings := s\<rparr>) = mutate m c \<and>
   settingsNV (snd (mutate m c)) =
     (case m of
        SetBrightnessPercent percent \<Rightarrow>
          (settingsNV c)\<lparr>brightnessMultiplier :=
            forceRange (int16 (percent * MAX_BRIGHTNESS) sdiv 100) MIN_BRIGHTNESS MAX_BRIGHTNESS\<rparr>
      | SetBrightness v \<Rightarrow>
          (settingsNV c)\<lparr>brightnessMultiplier := forceRange v MIN_BRIGHTNESS MAX_BRIGHTNESS\<rparr>
      | UpdateBrightness delta \<Rightarrow>
          (settingsNV c)\<lparr>brightnessMultiplier :=
            forceRange (int16 (brightnessMultiplier (settingsNV c) + delta))
              MIN_BRIGHTNESS MAX_BRIGHTNESS\<rparr>
      | SetPattern p \<Rightarrow> (settingsNV c)\<lparr>pattern := forceRange p 0 PATTERN_COUNT\<rparr>
      | UpdatePattern delta \<Rightarrow>
          (settingsNV c)\<lparr>pattern :=
            forceRange
              (int16 (int16 (pattern (settingsNV c) + PATTERN_COUNT) + delta) smod PATTERN_COUNT)
              0 PATTERN_COUNT\<rparr>
      | UpdateSpeed delta \<Rightarrow>
          (settingsNV c)\<lparr>revsPerMinute :=
            forceRange (int16 (revsPerMinute (settingsNV c) + int16 (delta * SPEED_STEP)))
              MIN_SPEED MAX_SPEED\<rparr>
      | SetSpeedPercent percent \<Rightarrow>
          (settingsNV c)\<lparr>revsPerMinute :=
            forceRange (int16 (MAX_SPEED * percent) sdiv 100) MIN_SPEED MAX_SPEED\<rparr>
      | SetSpeed speed \<Rightarrow>
          (settingsNV c)\<lparr>revsPerMinute := forceRange speed MIN_SPEED MAX_SPEED\<rparr>)"
proof (cases m)
  case (SetBrightnessPercent x)
  with setBrightness_writes [of "int16 (x * MAX_BRIGHTNESS) sdiv 100" c]
    setBrightness_stores [of "int16 (x * MAX_BRIGHTNESS) sdiv 100" c]
  show ?thesis
    by (simp add: setBrightnessPercent_def) (simp add: setBrightness_def)
next
  case (SetBrightness x)
  with setBrightness_writes [of x c] setBrightness_stores [of x c] show ?thesis
    by simp (simp add: setBrightness_def)
next
  case (UpdateBrightness x)
  with setBrightness_writes [of "int16 (brightnessMultiplier (settingsNV c) + x)" "loadSettings c"]
    setBrightness_stores [of "int16 (brightnessMultiplier (settingsNV c) + x)" "loadSettings c"]
  show ?thesis
    by (simp add: updateBrightness_def Let_def) (simp add: loadSettings_def)
next
  case (SetPattern x)
  with setPattern_writes [of x c] setPattern_stores [of x c] show ?thesis
    by simp (simp add: setPattern_def)
next
  case (UpdatePattern x)
  with setPattern_writes [of "int16 (int16 (pattern (settingsNV c) + PATTERN_COUNT) + x) smod PATTERN_COUNT" "loadSettings c"]
    setPattern_stores [of "int16 (int16 (pattern (settingsNV c) + PATTERN_COUNT) + x) smod PATTERN_COUNT" "loadSettings c"]
  show ?thesis
    by (simp add: updatePattern_def Let_def) (simp add: loadSettings_def)
next
  case (UpdateSpeed x)
  with setSpeed_writes [of "int16 (revsPerMinute (settingsNV c) + int16 (x * SPEED_STEP))" "loadSettings c"]
    setSpeed_stores [of "int16 (revsPerMinute (settingsNV c) + int16 (x * SPEED_STEP))" "loadSettings c"]
  show ?thesis
    by (simp add: updateSpeed_def Let_def) (simp add: loadSettings_def)
next
  case (SetSpeedPercent x)
  with setSpeed_writes [of "int16 (MAX_SPEED * x) sdiv 100" c] setSpeed_stores [of "int16 (MAX_SPEED * x) sdiv 100" c]
  show ?thesis
    by (simp add: setSpeedPercent_def) (simp add: setSpeed_def)
next
  case (SetSpeed x)
  with setSpeed_writes [of x c] setSpeed_stores [of x c] show ?thesis
    by simp (simp add: setSpeed_def)
qed

subsection \<open>Shutting down\<close>

lemma call_stopped:
  assumes "\<not> running c" and "\<not> isStartUp x"
  shows "\<exists>c'. call x c = Some c' \<and> \<not> running c' \<and> leds c' = leds c \<and>
           analogWrites c' =
             analogWrites c @ (if isShutdown x then map (\<lambda>led. (pin led, 0)) (leds c) else [])"
proof (cases x)
  case (Poll now)
  with assms show ?thesis by (simp add: poll_stopped)
next
  case (Mutate m)
  with assms mutate_frame [of m c] show ?thesis by simp
next
  case Shutdown
  with shutdown_effect [of c] show ?thesis by simp
next
  case (StartUp now now')
  with assms show ?thesis by simp
qed

lemma calls_stopped:
  assumes "\<not> running c" and "\<forall>x \<in> set xs. \<not> isStartUp x"
  shows "\<exists>c'. calls xs c = Some c' \<and> \<not> running c' \<and> leds c' = leds c \<and>
           analogWrites c' =
             analogWrites c @
             concat (replicate (length (filter isShutdown xs)) (map (\<lambda>led. (pin led, 0)) (leds c)))"
  using assms
proof (induction xs arbitrary: c)
  case Nil
  then show ?case by simp
next
  case (Cons x xs)
  from Cons.prems call_stopped [of c x]
  obtain c1 where c1: "call x c = Some c1" "\<not> running c1" "leds c1 = leds c"
    "analogWrites c1 =
       analogWrites c @ (if isShutdown x then map (\<lambda>led. (pin led, 0)) (leds c) else [])"
    by auto
  from Cons.IH [OF c1(2)] Cons.prems(2)
  obtain c' where "calls xs c1 = Some c'" "\<not> running c'" "leds c' = leds c1"
    "analogWrites c' =
       analogWrites c1 @
       concat (replicate (length (filter isShutdown xs)) (map (\<lambda>led. (pin led, 0)) (leds c1)))"
    by auto
  with c1 show ?case by simp
qed

text \<open>
  Claim C9. \<^verbatim>\<open>shutdown\<close> stops the cluster and writes the duty cycle 0 to the pin of
  every LED. Any sequence of later calls without a \<^verbatim>\<open>startUp\<close> (polls at any times,
  changes of the pattern, the brightness or the speed, further shutdowns) leaves the
  cluster stopped and writes nothing to any pin but the zeros of the further shutdowns:
  a poll of the stopped cluster writes nothing, whatever the pattern.
\<close>

theorem shutdown_then_poll_silent:
  assumes "\<forall>x \<in> set xs. \<not> isStartUp x"
  shows "\<not> running (shutdown c) \<and>
         analogWrites (shutdown c) = analogWrites c @ map (\<lambda>led. (pin led, 0)) (leds c) \<and>
         (\<exists>c'. calls xs (shutdown c) = Some c' \<and> \<not> running c' \<and>
            analogWrites c' =
              analogWrites (shutdown c) @
              concat (replicate (length (filter isShutdown xs)) (map (\<lambda>led. (pin led, 0)) (leds c))))"
  using shutdown_effect [of c] calls_stopped [of "shutdown c" xs] assms
  by auto

theorem shutdown_then_poll_silent_witness:
  "\<not> isStartUp (Poll 20) \<and> \<not> isStartUp (Mutate (UpdatePattern 1)) \<and> \<not> isStartUp (Poll 40) \<and>
   (\<exists>c'. calls [Poll 20, Mutate (UpdatePattern 1), Poll 40] (shutdown sketchCluster) = Some c' \<and>
      \<not> running c' \<and>
      analogWrites c' = [(3, 0), (5, 0), (6, 0), (9, 0), (10, 0), (11, 0)])"
  using shutdown_then_poll_silent [of "[Poll 20, Mutate (UpdatePattern 1), Poll 40]" sketchCluster]
  by (auto simp add: sketchCluster_leds sketchCluster_fields)

end
